theory Spec2Isabelle
  imports Main "HOL-Library.Word"
begin

section \<open>Data model of \<^verbatim>\<open>src/common/NFTget.ts\<close>\<close>

text \<open>
  A ledger address (\<^verbatim>\<open>PublicKey\<close>, \<^verbatim>\<open>AnyPublicKey\<close>, \<^verbatim>\<open>StringPublicKey\<close>) is its base58 text.
  The on-chain fields that hold an address are already well-formed addresses, so
  \<^verbatim>\<open>new PublicKey(x)\<close> on such a field is the identity and \<^verbatim>\<open>toBase58\<close> is too.
\<close>

type_synonym pubkey = string

text \<open>
  A thrown JavaScript value. \<^verbatim>\<open>Error msg\<close> is \<^verbatim>\<open>new Error(msg)\<close> (also what a collaborator
  rejects with), \<^verbatim>\<open>TypeError\<close> is what the runtime throws when a property of
  \<^verbatim>\<open>undefined\<close> is read or destructured.
\<close>

datatype error = Error string | TypeError string

text \<open>\<^verbatim>\<open>programs.metadata.Metadata\<close>: \<^verbatim>\<open>m.pubkey\<close>, \<^verbatim>\<open>m.data.mint\<close>, \<^verbatim>\<open>m.data.data.uri\<close>.\<close>

record metadata_data_data =
  mdd_name :: string
  mdd_symbol :: string
  mdd_uri :: string

record metadata_data =
  md_mint :: pubkey
  md_updateAuthority :: pubkey
  md_data :: metadata_data_data

record metadata =
  m_pubkey :: pubkey
  m_data :: metadata_data

text \<open>Raw account as \<^verbatim>\<open>Account.getInfo\<close> returns it; \<^verbatim>\<open>data\<close> is a byte buffer.\<close>

record account_info =
  ai_owner :: pubkey
  ai_data :: "8 word list"

record edition_data =
  ed_parent :: pubkey
  ed_edition :: nat

record master_edition_data =
  med_supply :: nat
  med_maxSupply :: "nat option"

text \<open>An entry of \<^verbatim>\<open>getTokenLargestAccounts(mint).value\<close>, and the response around it.\<close>

record token_account_balance_pair =
  tp_address :: pubkey
  tp_amount :: nat

record rpc_response =
  rr_slot :: nat
  rr_value :: "token_account_balance_pair list"

text \<open>
  What \<^verbatim>\<open>deserializeTokenAccount\<close> and \<^verbatim>\<open>deserializeTokenMint\<close> of
  \<^verbatim>\<open>helpers/spl-token\<close> decode, and the off-chain JSON document (kept as its text).
\<close>

record token_account =
  ta_owner :: pubkey
  ta_amount :: nat

record mint_info =
  mi_supply :: nat
  mi_decimals :: nat

type_synonym json = string

record http_response =
  resp_status :: nat
  resp_data :: json

text \<open>
  The numeric values of \<^verbatim>\<open>programs.metadata.MetadataKey\<close> that the switch of
  \<^verbatim>\<open>getEditionInfoByMint\<close> compares the leading byte with.
\<close>

definition MetadataKey_EditionV1 :: "8 word" where
  "MetadataKey_EditionV1 = 1"

definition MetadataKey_MasterEditionV1 :: "8 word" where
  "MetadataKey_MasterEditionV1 = 2"

definition MetadataKey_MasterEditionV2 :: "8 word" where
  "MetadataKey_MasterEditionV2 = 6"

datatype edition_type = MasterV1 | MasterV2 | PrintV1 | Unknown

text \<open>The object \<^verbatim>\<open>getEditionInfoByMint\<close> returns (lines 119-125); \<^verbatim>\<open>undefined\<close> is \<open>None\<close>.\<close>

record edition_info =
  ei_editionType :: edition_type
  ei_editionPDA :: "pubkey option"
  ei_editionData :: "edition_data option"
  ei_masterEditionPDA :: "pubkey option"
  ei_masterEditionData :: "master_edition_data option"

text \<open>
  \<^verbatim>\<open>INFT\<close> of \<^verbatim>\<open>helpers/types\<close>, by the fields this module writes: the three base fields of
  \<^verbatim>\<open>deserializeMetadataOnchain\<close> and the enrichment fields, each absent (\<open>None\<close>) until set.
\<close>

record INFT =
  mint :: pubkey
  metadataPDA :: pubkey
  metadataOnchain :: metadata_data
  address :: "pubkey option"
  splTokenInfo :: "token_account option"
  splMintInfo :: "mint_info option"
  metadataExternal :: "json option"
  editionType :: "edition_type option"
  editionPDA :: "pubkey option"
  editionData :: "edition_data option"
  masterEditionPDA :: "pubkey option"
  masterEditionData :: "master_edition_data option"

text \<open>The object literal each per-record task returns (lines 155-162).\<close>

record enriched =
  en_mint :: pubkey
  en_address :: "pubkey option"
  en_splTokenInfo :: "token_account option"
  en_splMintInfo :: "mint_info option"
  en_metadataExternal :: "json option"
  en_editionType :: "edition_type option"
  en_editionPDA :: "pubkey option"
  en_editionData :: "edition_data option"
  en_masterEditionPDA :: "pubkey option"
  en_masterEditionData :: "master_edition_data option"

text \<open>\<^verbatim>\<open>INFTParams\<close>: the destructured argument of \<^verbatim>\<open>getNFTs\<close>; a missing property is \<open>None\<close>.\<close>

record INFTParams =
  p_owner :: "pubkey option"
  p_creators :: "pubkey list option"
  p_mint :: "pubkey option"
  p_updateAuthority :: "pubkey option"

datatype LoadStatus = Loading

record UpdateLoadingParams =
  newStatus :: LoadStatus
  newProgress :: nat
  maxProgress :: nat
  newText :: string

section \<open>The outside world and its effects\<close>

text \<open>The filter object passed to \<^verbatim>\<open>Metadata.findMany\<close>: one property is set.\<close>

datatype find_filter =
    FilterCreators "pubkey list"
  | FilterUpdateAuthority pubkey
  | FilterMint pubkey

text \<open>
  Every call that leaves the module, in the order it is issued. \<^verbatim>\<open>console.log\<close> lines are
  developer diagnostics and are not recorded.
\<close>

datatype effect =
    FindByOwnerV2 pubkey
  | FindMany find_filter
  | GetTokenLargestAccounts pubkey
  | AccountGetInfo pubkey
  | AxiosGet string
  | DeserializeTokenAccount pubkey "pubkey option"
  | DeserializeTokenMint pubkey
  | EmitLoading UpdateLoadingParams

text \<open>
  The collaborators, each independently fallible (\<open>Inl\<close> is a rejection or a throw). A
  response that may be \<^verbatim>\<open>null\<close> or \<^verbatim>\<open>undefined\<close> is an option. \<open>Edition_getPDA\<close> is the
  deterministic address derivation; the two decoders are the constructors
  \<^verbatim>\<open>new Edition(pda, info)\<close> and \<^verbatim>\<open>new MasterEdition(pda, info)\<close>, which fail on malformed
  input. \<open>deserializeTokenAccount\<close> and \<open>deserializeTokenMint\<close> are the two functions of
  \<^verbatim>\<open>helpers/spl-token\<close>, which is not among the sources: they are parameters here, each a
  fallible call of its own.
\<close>

record env =
  findByOwnerV2 :: "pubkey \<Rightarrow> error + metadata list"
  findMany :: "find_filter \<Rightarrow> error + metadata list"
  getTokenLargestAccounts :: "pubkey \<Rightarrow> error + rpc_response option"
  axios_get :: "string \<Rightarrow> error + http_response option"
  Edition_getPDA :: "pubkey \<Rightarrow> pubkey"
  Account_getInfo :: "pubkey \<Rightarrow> error + account_info option"
  Edition_decode :: "pubkey \<Rightarrow> account_info option \<Rightarrow> error + edition_data"
  MasterEdition_decode :: "pubkey \<Rightarrow> account_info option \<Rightarrow> error + master_edition_data"
  deserializeTokenAccount :: "pubkey \<Rightarrow> pubkey option \<Rightarrow> error + token_account"
  deserializeTokenMint :: "pubkey \<Rightarrow> error + mint_info"

text \<open>
  An asynchronous computation, run to its end: the effects it issued, and either the
  value it resolved with or the error it rejected with.
\<close>

type_synonym 'a io = "effect list \<times> (error + 'a)"

definition io_return :: "'a \<Rightarrow> 'a io" where
  "io_return x = ([], Inr x)"

definition io_throw :: "error \<Rightarrow> 'a io" where
  "io_throw e = ([], Inl e)"

definition io_call :: "effect \<Rightarrow> (error + 'a) \<Rightarrow> 'a io" where
  "io_call ef r = ([ef], r)"

text \<open>\<^verbatim>\<open>const x = await m; ...\<close>: a rejection of \<open>m\<close> skips the rest.\<close>

definition io_bind :: "'a io \<Rightarrow> ('a \<Rightarrow> 'b io) \<Rightarrow> 'b io" where
  "io_bind m f =
     (case m of
        (t, Inl e) \<Rightarrow> (t, Inl e)
      | (t, Inr x) \<Rightarrow> (case f x of (t', r) \<Rightarrow> (t @ t', r)))"

text \<open>
  \<^verbatim>\<open>Promise.all\<close> over tasks that have all been started: every task's effects happen, and
  the result is the list of values in the order of the tasks, or the rejection of the
  first task that rejected. The trace lists the effects task by task; how the tasks
  interleave in time is the subject of the schedule model further down.
\<close>

fun Promise_all :: "'a io list \<Rightarrow> 'a list io" where
  "Promise_all [] = ([], Inr [])"
| "Promise_all ((t, r) # ms) =
     (case Promise_all ms of
        (ts, rs) \<Rightarrow>
          (t @ ts,
           case r of
             Inl e \<Rightarrow> Inl e
           | Inr x \<Rightarrow> (case rs of Inl e \<Rightarrow> Inl e | Inr xs \<Rightarrow> Inr (x # xs))))"

section \<open>Helpers of \<^verbatim>\<open>helpers/util\<close>\<close>

text \<open>What a call through the failure-tolerant adapter yields.\<close>

datatype 'a tolerated = Value 'a | Undefined | EmptyObject

text \<open>
  Modelled from the spec: \<^verbatim>\<open>okToFailAsync\<close> of \<^verbatim>\<open>helpers/util\<close> is not among the sources.
  The spec: "any exception/error is caught and converted to an absent value (or an empty
  structure, per call site) rather than aborting". The call sites differ in a third
  argument \<^verbatim>\<open>true\<close>, here \<open>wantObject\<close>: with it a failure yields the empty structure
  \<^verbatim>\<open>{}\<close>, without it the absent value \<^verbatim>\<open>undefined\<close>. The callback applied to its
  arguments is passed as the computation \<open>m\<close>.
\<close>

definition okToFailAsync :: "'a io \<Rightarrow> bool \<Rightarrow> 'a tolerated io" where
  "okToFailAsync m wantObject =
     (case m of
        (t, Inl e) \<Rightarrow> (t, Inr (if wantObject then EmptyObject else Undefined))
      | (t, Inr x) \<Rightarrow> (t, Inr (Value x)))"

text \<open>
  Modelled from the spec: \<^verbatim>\<open>getEnumKeyByEnumValue\<close> of \<^verbatim>\<open>helpers/util\<close> is not among the
  sources. The spec names the classification it yields for the leading tag: MasterEditionV1
  and MasterEditionV2 give the corresponding master state, EditionV1 gives PrintV1, "any
  other tag" (also no tag at all) gives Unknown.
\<close>

definition getEnumKeyByEnumValue :: "8 word option \<Rightarrow> edition_type" where
  "getEnumKeyByEnumValue key =
     (if key = Some MetadataKey_EditionV1 then PrintV1
      else if key = Some MetadataKey_MasterEditionV1 then MasterV1
      else if key = Some MetadataKey_MasterEditionV2 then MasterV2
      else Unknown)"

text \<open>
  Modelled from the spec: \<^verbatim>\<open>joinArraysOnKey\<close> of \<^verbatim>\<open>helpers/util\<close> is not among the sources.
  The spec: the enrichment results are "merged back onto the original base record set by
  tokenIdentifier equality", as "an ordered projection over the original base sequence
  looking up each key", which preserves "every base record even if all enrichment calls
  failed for it". \<open>key1\<close> and \<open>key2\<close> read the key of either side; \<open>spread\<close> is the object
  spread of the matching entry (the first entry of \<open>arr2\<close> with the key) over the base
  record. A base record with no matching entry is kept as it is.
\<close>

definition joinArraysOnKey ::
  "'a list \<Rightarrow> 'b list \<Rightarrow> ('a \<Rightarrow> 'k) \<Rightarrow> ('b \<Rightarrow> 'k) \<Rightarrow> ('a \<Rightarrow> 'b \<Rightarrow> 'a) \<Rightarrow> 'a list" where
  "joinArraysOnKey arr1 arr2 key1 key2 spread =
     map (\<lambda>a. case find (\<lambda>b. key2 b = key1 a) arr2 of
                 None \<Rightarrow> a
               | Some b \<Rightarrow> spread a b) arr1"

section \<open>Getters\<close>

definition getMetadataByCreators :: "env \<Rightarrow> pubkey list \<Rightarrow> metadata list io" where
  "getMetadataByCreators w creators =
     io_call (FindMany (FilterCreators creators)) (findMany w (FilterCreators creators))"

definition getMetadataByUpdateAuthority :: "env \<Rightarrow> pubkey \<Rightarrow> metadata list io" where
  "getMetadataByUpdateAuthority w updateAuthority =
     io_call (FindMany (FilterUpdateAuthority updateAuthority))
       (findMany w (FilterUpdateAuthority updateAuthority))"

definition getMetadataByMint :: "env \<Rightarrow> pubkey \<Rightarrow> metadata list io" where
  "getMetadataByMint w mnt =
     io_call (FindMany (FilterMint mnt)) (findMany w (FilterMint mnt))"

definition getMetadataByOwner :: "env \<Rightarrow> pubkey \<Rightarrow> metadata list io" where
  "getMetadataByOwner w owner =
     io_call (FindByOwnerV2 owner) (findByOwnerV2 w owner)"

text \<open>
  Lines 69-74: \<^verbatim>\<open>if (tokens && tokens.value.length > 0) return tokens.value[0].address\<close>,
  otherwise the function falls off its end and resolves with \<^verbatim>\<open>undefined\<close>.
\<close>

definition getHolderByMint :: "env \<Rightarrow> pubkey \<Rightarrow> pubkey option io" where
  "getHolderByMint w mnt =
     io_bind (io_call (GetTokenLargestAccounts mnt) (getTokenLargestAccounts w mnt))
       (\<lambda>tokens.
          case tokens of
            None \<Rightarrow> io_return None
          | Some resp \<Rightarrow>
              (case rr_value resp of
                 [] \<Rightarrow> io_return None
               | first # _ \<Rightarrow> io_return (Some (tp_address first))))"

definition getExternalMetadata :: "env \<Rightarrow> string \<Rightarrow> json option io" where
  "getExternalMetadata w uri =
     io_bind (io_call (AxiosGet uri) (axios_get w uri))
       (\<lambda>response.
          case response of
            None \<Rightarrow> io_return None
          | Some resp \<Rightarrow> io_return (Some (resp_data resp)))"

definition getParentEdition ::
  "env \<Rightarrow> edition_data \<Rightarrow> (pubkey \<times> master_edition_data) io" where
  "getParentEdition w edData =
     (let masterEditionPDA' = ed_parent edData in
      io_bind (io_call (AccountGetInfo masterEditionPDA') (Account_getInfo w masterEditionPDA'))
        (\<lambda>masterInfo.
           case MasterEdition_decode w masterEditionPDA' masterInfo of
             Inl e \<Rightarrow> io_throw e
           | Inr masterEditionData' \<Rightarrow> io_return (masterEditionPDA', masterEditionData')))"

text \<open>\<^verbatim>\<open>info?.data[0]\<close>: \<^verbatim>\<open>undefined\<close> for no account and for an empty buffer.\<close>

definition leading_tag :: "account_info option \<Rightarrow> 8 word option" where
  "leading_tag info =
     (case info of
        None \<Rightarrow> None
      | Some i \<Rightarrow> (case ai_data i of [] \<Rightarrow> None | b # _ \<Rightarrow> Some b))"

text \<open>
  Lines 90-126. In the \<^verbatim>\<open>EditionV1\<close> case the parent lookup goes through the adapter
  without the third argument, and its result is destructured
  (\<^verbatim>\<open>({ masterEditionPDA, masterEditionData } = await okToFailAsync(...))\<close>): destructuring
  \<^verbatim>\<open>undefined\<close> throws a TypeError, destructuring \<^verbatim>\<open>{}\<close> leaves both absent.
\<close>

definition getEditionInfoByMint :: "env \<Rightarrow> pubkey \<Rightarrow> edition_info io" where
  "getEditionInfoByMint w mnt =
     (let pda = Edition_getPDA w mnt in
      io_bind (io_call (AccountGetInfo pda) (Account_getInfo w pda))
        (\<lambda>info.
           let key = leading_tag info;
               edType = getEnumKeyByEnumValue key
           in
           if key = Some MetadataKey_EditionV1 then
             (case Edition_decode w pda info of
                Inl e \<Rightarrow> io_throw e
              | Inr edData \<Rightarrow>
                  io_bind (okToFailAsync (getParentEdition w edData) False)
                    (\<lambda>parent.
                       case parent of
                         Value (mPDA, mData) \<Rightarrow>
                           io_return \<lparr>ei_editionType = edType, ei_editionPDA = Some pda,
                             ei_editionData = Some edData, ei_masterEditionPDA = Some mPDA,
                             ei_masterEditionData = Some mData\<rparr>
                       | Undefined \<Rightarrow>
                           io_throw (TypeError ''Cannot destructure property of undefined'')
                       | EmptyObject \<Rightarrow>
                           io_return \<lparr>ei_editionType = edType, ei_editionPDA = Some pda,
                             ei_editionData = Some edData, ei_masterEditionPDA = None,
                             ei_masterEditionData = None\<rparr>))
           else if key = Some MetadataKey_MasterEditionV1 \<or> key = Some MetadataKey_MasterEditionV2 then
             (case MasterEdition_decode w pda info of
                Inl e \<Rightarrow> io_throw e
              | Inr mData \<Rightarrow>
                  io_return \<lparr>ei_editionType = edType, ei_editionPDA = None,
                    ei_editionData = None, ei_masterEditionPDA = Some pda,
                    ei_masterEditionData = Some mData\<rparr>)
           else
             io_return \<lparr>ei_editionType = edType, ei_editionPDA = None, ei_editionData = None,
               ei_masterEditionPDA = None, ei_masterEditionData = None\<rparr>))"

section \<open>Deserializers\<close>

definition deserializeMetadataOnchain :: "metadata list \<Rightarrow> INFT list" where
  "deserializeMetadataOnchain metadatas =
     map (\<lambda>m. \<lparr>mint = md_mint (m_data m), metadataPDA = m_pubkey m,
                metadataOnchain = m_data m, address = None, splTokenInfo = None,
                splMintInfo = None, metadataExternal = None, editionType = None,
                editionPDA = None, editionData = None, masterEditionPDA = None,
                masterEditionData = None\<rparr>) metadatas"

section \<open>Together\<close>

text \<open>
  The value a property holds after \<^verbatim>\<open>prop: await okToFailAsync(f, args)\<close>: what the
  callback resolved with, or nothing. (No call site stores the empty structure in a
  property.)
\<close>

fun settled :: "'a tolerated \<Rightarrow> 'a option" where
  "settled (Value x) = Some x"
| "settled Undefined = None"
| "settled EmptyObject = None"

text \<open>As \<open>settled\<close>, for a callback that itself may resolve with \<^verbatim>\<open>undefined\<close>.\<close>

fun settled_opt :: "'a option tolerated \<Rightarrow> 'a option" where
  "settled_opt (Value x) = x"
| "settled_opt Undefined = None"
| "settled_opt EmptyObject = None"

text \<open>
  The async arrow function of lines 152-163, for one record. Its five awaits are evaluated
  one after the other; the spread of the edition lookup contributes the five fields of the
  returned object, or none when the adapter yielded \<^verbatim>\<open>{}\<close>.
\<close>

definition enrich_task :: "env \<Rightarrow> INFT \<Rightarrow> enriched io" where
  "enrich_task w n =
     io_bind (okToFailAsync (getHolderByMint w (md_mint (metadataOnchain n))) False)
       (\<lambda>holder.
          let address' = settled_opt holder in
          io_bind (okToFailAsync
                     (io_call (DeserializeTokenAccount (mint n) address')
                        (deserializeTokenAccount w (mint n) address')) False)
            (\<lambda>tokenInfo.
               io_bind (okToFailAsync
                          (io_call (DeserializeTokenMint (mint n))
                             (deserializeTokenMint w (mint n))) False)
                 (\<lambda>mintInfo.
                    io_bind (okToFailAsync
                               (getExternalMetadata w (mdd_uri (md_data (metadataOnchain n))))
                               False)
                      (\<lambda>ext.
                         io_bind (okToFailAsync (getEditionInfoByMint w (mint n)) True)
                           (\<lambda>ed.
                              io_return
                                \<lparr>en_mint = mint n,
                                 en_address = address',
                                 en_splTokenInfo = settled tokenInfo,
                                 en_splMintInfo = settled mintInfo,
                                 en_metadataExternal = settled_opt ext,
                                 en_editionType = map_option ei_editionType (settled ed),
                                 en_editionPDA = Option.bind (settled ed) ei_editionPDA,
                                 en_editionData = Option.bind (settled ed) ei_editionData,
                                 en_masterEditionPDA =
                                   Option.bind (settled ed) ei_masterEditionPDA,
                                 en_masterEditionData =
                                   Option.bind (settled ed) ei_masterEditionData\<rparr>)))))"

text \<open>\<^verbatim>\<open>{ ...arr1[i], ...found }\<close>: every property of the enriched object overrides.\<close>

definition spread_enriched :: "INFT \<Rightarrow> enriched \<Rightarrow> INFT" where
  "spread_enriched n e =
     n\<lparr>mint := en_mint e, address := en_address e, splTokenInfo := en_splTokenInfo e,
       splMintInfo := en_splMintInfo e, metadataExternal := en_metadataExternal e,
       editionType := en_editionType e, editionPDA := en_editionPDA e,
       editionData := en_editionData e, masterEditionPDA := en_masterEditionPDA e,
       masterEditionData := en_masterEditionData e\<rparr>"

definition turnMetadatasIntoNFTs :: "env \<Rightarrow> metadata list \<Rightarrow> INFT list io" where
  "turnMetadatasIntoNFTs w metadatas =
     (let NFTs = deserializeMetadataOnchain metadatas in
      io_bind (Promise_all (map (enrich_task w) NFTs))
        (\<lambda>enrichedNFTs.
           io_return (joinArraysOnKey NFTs enrichedNFTs mint en_mint spread_enriched)))"

text \<open>The message of the error thrown at line 187; the spec calls it InvalidSelector.\<close>

definition InvalidSelector :: error where
  "InvalidSelector = Error ''You must pass one of owner / creators / mint / updateAuthority''"

text \<open>
  Lines 173-188: the if/else chain that assigns \<^verbatim>\<open>metadatas\<close>. An object is truthy when
  it is there; \<^verbatim>\<open>creators && creators.length > 0\<close> also asks for an element.
\<close>

definition locate_metadatas :: "env \<Rightarrow> INFTParams \<Rightarrow> metadata list io" where
  "locate_metadatas w p =
     (case p_owner p of
        Some owner \<Rightarrow> getMetadataByOwner w owner
      | None \<Rightarrow>
          (if (case p_creators p of None \<Rightarrow> False | Some cs \<Rightarrow> length cs > 0)
           then getMetadataByCreators w (case p_creators p of None \<Rightarrow> [] | Some cs \<Rightarrow> cs)
           else
             (case p_mint p of
                Some mnt \<Rightarrow> getMetadataByMint w mnt
              | None \<Rightarrow>
                  (case p_updateAuthority p of
                     Some updateAuthority \<Rightarrow> getMetadataByUpdateAuthority w updateAuthority
                   | None \<Rightarrow> io_throw InvalidSelector))))"

text \<open>Decimal text of a number, as a template literal prints it.\<close>

fun string_of_nat :: "nat \<Rightarrow> string" where
  "string_of_nat n =
     (if n < 10 then [char_of (48 + n)]
      else string_of_nat (n div 10) @ [char_of (48 + n mod 10)])"

declare string_of_nat.simps [simp del]

definition loading_params :: "nat \<Rightarrow> UpdateLoadingParams" where
  "loading_params n =
     \<lparr>newStatus = Loading, newProgress = 50, maxProgress = 90,
      newText = ''Found a total of '' @ string_of_nat n @ '' NFTs. Fetching metadata...''\<rparr>"

definition getNFTs :: "env \<Rightarrow> INFTParams \<Rightarrow> INFT list io" where
  "getNFTs w p =
     io_bind (locate_metadatas w p)
       (\<lambda>metadatas.
          if length metadatas = 0 then io_return []
          else
            io_bind (io_call (EmitLoading (loading_params (length metadatas))) (Inr ()))
              (\<lambda>_. turnMetadatasIntoNFTs w metadatas))"

section \<open>Reading a trace\<close>

fun is_emit :: "effect \<Rightarrow> bool" where
  "is_emit (EmitLoading _) = True"
| "is_emit _ = False"

fun is_locator_query :: "effect \<Rightarrow> bool" where
  "is_locator_query (FindByOwnerV2 _) = True"
| "is_locator_query (FindMany _) = True"
| "is_locator_query _ = False"

fun is_account_fetch :: "effect \<Rightarrow> bool" where
  "is_account_fetch (AccountGetInfo _) = True"
| "is_account_fetch _ = False"


section \<open>The fan-out of lines 151-165 as a schedule of awaits\<close>















section \<open>A sample ledger\<close>

text \<open>
  A small world to run the functions on. Mint A is a master edition (tag 6), mint B a
  print (tag 1) whose parent is A's edition account, mint C a print whose parent account
  cannot be fetched, mint D has an edition account that cannot be fetched, mint E has no
  edition account, mint F carries tag 6 on data that does not decode, mint G carries the
  tag of a metadata account (4), mint H has an edition account with no data, mint I carries
  tag 1 on data that does not decode.
\<close>

definition sample_metadata :: "pubkey \<Rightarrow> string \<Rightarrow> metadata" where
  "sample_metadata mnt uri =
     \<lparr>m_pubkey = ''meta:'' @ mnt,
      m_data = \<lparr>md_mint = mnt, md_updateAuthority = ''authority1'',
                md_data = \<lparr>mdd_name = ''nft'', mdd_symbol = ''N'', mdd_uri = uri\<rparr>\<rparr>\<rparr>"

definition sample_account :: "8 word list \<Rightarrow> account_info" where
  "sample_account bytes = \<lparr>ai_owner = ''metaplex'', ai_data = bytes\<rparr>"

definition sample_world :: env where
  "sample_world =
     \<lparr>findByOwnerV2 =
        (\<lambda>owner. if owner = ''owner1''
                  then Inr [sample_metadata ''A'' ''https://x/a.json'',
                            sample_metadata ''B'' ''https://x/1.json'']
                  else Inr []),
      findMany =
        (\<lambda>q. case q of
                FilterMint mnt \<Rightarrow>
                  (if mnt = ''A'' then Inr [sample_metadata ''A'' ''https://x/a.json'']
                   else if mnt = ''Z'' then Inr [sample_metadata ''Z'' ''https://x/1.json'']
                   else Inr [])
              | FilterCreators cs \<Rightarrow> Inr [sample_metadata ''C'' ''https://x/c.json'']
              | FilterUpdateAuthority a \<Rightarrow> Inr [sample_metadata ''B'' ''https://x/1.json'']),
      getTokenLargestAccounts =
        (\<lambda>mnt. if mnt = ''A''
                then Inr (Some \<lparr>rr_slot = 7, rr_value =
                       [\<lparr>tp_address = ''holderA'', tp_amount = 0\<rparr>,
                        \<lparr>tp_address = ''holderA2'', tp_amount = 5\<rparr>]\<rparr>)
                else if mnt = ''B'' then Inr (Some \<lparr>rr_slot = 7, rr_value = []\<rparr>)
                else Inl (Error ''rpc failure'')),
      axios_get =
        (\<lambda>uri. if uri = ''https://x/1.json'' then Inl (Error ''404'')
                else Inr (Some \<lparr>resp_status = 200, resp_data = ''{}''\<rparr>)),
      Edition_getPDA = (\<lambda>mnt. ''edition:'' @ mnt),
      Account_getInfo =
        (\<lambda>a. if a = ''edition:A'' then Inr (Some (sample_account [6, 0, 0]))
              else if a = ''edition:B'' then Inr (Some (sample_account [1, 9]))
              else if a = ''edition:C'' then Inr (Some (sample_account [1, 3]))
              else if a = ''edition:E'' then Inr None
              else if a = ''edition:F'' then Inr (Some (sample_account [6]))
              else if a = ''edition:G'' then Inr (Some (sample_account [4, 1]))
              else if a = ''edition:H'' then Inr (Some (sample_account []))
              else if a = ''edition:I'' then Inr (Some (sample_account [1]))
              else Inl (Error ''Unable to find account'')),
      Edition_decode =
        (\<lambda>a info. if a = ''edition:B'' then Inr \<lparr>ed_parent = ''edition:A'', ed_edition = 9\<rparr>
                   else if a = ''edition:C'' then Inr \<lparr>ed_parent = ''gone'', ed_edition = 3\<rparr>
                   else Inl (Error ''invalid account data'')),
      MasterEdition_decode =
        (\<lambda>a info. if a = ''edition:A'' \<and> info \<noteq> None
                   then Inr \<lparr>med_supply = 9, med_maxSupply = Some 10\<rparr>
                   else Inl (Error ''invalid account data'')),
      deserializeTokenAccount =
        (\<lambda>mnt holder. if mnt = ''A'' \<and> holder = Some ''holderA''
                       then Inr \<lparr>ta_owner = ''wallet'', ta_amount = 1\<rparr>
                       else Inl (Error ''no token account'')),
      deserializeTokenMint =
        (\<lambda>mnt. if mnt = ''A'' \<or> mnt = ''B'' then Inr \<lparr>mi_supply = 1, mi_decimals = 0\<rparr>
                else Inl (Error ''no mint account''))\<rparr>"

section \<open>Running computations\<close>

lemma io_bind_Inl: "snd m = Inl e \<Longrightarrow> io_bind m f = (fst m, Inl e)"
  by (cases m) (simp add: io_bind_def)

lemma io_bind_Inr: "snd m = Inr x \<Longrightarrow> io_bind m f = (fst m @ fst (f x), snd (f x))"
  by (cases m) (simp add: io_bind_def split: prod.split)

lemma fst_okToFailAsync: "fst (okToFailAsync m b) = fst m"
  by (cases m) (simp add: okToFailAsync_def split: sum.split)

lemma snd_okToFailAsync:
  "snd (okToFailAsync m b) =
     Inr (case snd m of Inl e \<Rightarrow> (if b then EmptyObject else Undefined) | Inr x \<Rightarrow> Value x)"
  by (cases m) (simp add: okToFailAsync_def split: sum.split)

lemma io_bind_okToFailAsync:
  "io_bind (okToFailAsync m b) f =
     (let v = (case snd m of Inl e \<Rightarrow> (if b then EmptyObject else Undefined) | Inr x \<Rightarrow> Value x)
      in (fst m @ fst (f v), snd (f v)))"
  by (simp add: io_bind_Inr [OF snd_okToFailAsync] fst_okToFailAsync Let_def)

lemma fst_getHolderByMint: "fst (getHolderByMint w mnt) = [GetTokenLargestAccounts mnt]"
  by (simp add: getHolderByMint_def io_bind_def io_call_def io_return_def
      split: sum.split option.split list.split)

lemma fst_getExternalMetadata: "fst (getExternalMetadata w uri) = [AxiosGet uri]"
  by (simp add: getExternalMetadata_def io_bind_def io_call_def io_return_def
      split: sum.split option.split)

lemma fst_getParentEdition: "fst (getParentEdition w ed) = [AccountGetInfo (ed_parent ed)]"
  by (simp add: getParentEdition_def io_bind_def io_call_def io_return_def io_throw_def Let_def
      split: sum.split)

section \<open>Edition resolution, case by case\<close>

lemma MetadataKey_distinct:
  "MetadataKey_EditionV1 \<noteq> MetadataKey_MasterEditionV1"
  "MetadataKey_EditionV1 \<noteq> MetadataKey_MasterEditionV2"
  "MetadataKey_MasterEditionV1 \<noteq> MetadataKey_MasterEditionV2"
  by (simp_all add: MetadataKey_EditionV1_def MetadataKey_MasterEditionV1_def
      MetadataKey_MasterEditionV2_def)

lemma io_bind_io_call:
  "io_bind (io_call ef r) f =
     (case r of Inl e \<Rightarrow> ([ef], Inl e) | Inr x \<Rightarrow> (ef # fst (f x), snd (f x)))"
  by (simp add: io_bind_def io_call_def split: sum.split prod.split)

lemma getParentEdition_eq:
  "getParentEdition w ed =
     ([AccountGetInfo (ed_parent ed)],
      case Account_getInfo w (ed_parent ed) of
        Inl e \<Rightarrow> Inl e
      | Inr masterInfo \<Rightarrow>
          (case MasterEdition_decode w (ed_parent ed) masterInfo of
             Inl e \<Rightarrow> Inl e
           | Inr d \<Rightarrow> Inr (ed_parent ed, d)))"
  by (simp add: getParentEdition_def io_bind_io_call io_return_def io_throw_def Let_def
      split: sum.split)

lemma getEditionInfoByMint_fetch_fails:
  "Account_getInfo w (Edition_getPDA w mnt) = Inl e \<Longrightarrow>
     getEditionInfoByMint w mnt = ([AccountGetInfo (Edition_getPDA w mnt)], Inl e)"
  by (simp add: getEditionInfoByMint_def io_bind_io_call Let_def)

lemma getEditionInfoByMint_print_undecodable:
  "Account_getInfo w (Edition_getPDA w mnt) = Inr info \<Longrightarrow>
   leading_tag info = Some MetadataKey_EditionV1 \<Longrightarrow>
   Edition_decode w (Edition_getPDA w mnt) info = Inl e \<Longrightarrow>
     getEditionInfoByMint w mnt = ([AccountGetInfo (Edition_getPDA w mnt)], Inl e)"
  by (simp add: getEditionInfoByMint_def io_bind_io_call Let_def io_throw_def)

lemma getEditionInfoByMint_print:
  "Account_getInfo w (Edition_getPDA w mnt) = Inr info \<Longrightarrow>
   leading_tag info = Some MetadataKey_EditionV1 \<Longrightarrow>
   Edition_decode w (Edition_getPDA w mnt) info = Inr ed \<Longrightarrow>
     getEditionInfoByMint w mnt =
       ([AccountGetInfo (Edition_getPDA w mnt), AccountGetInfo (ed_parent ed)],
        case snd (getParentEdition w ed) of
          Inl e \<Rightarrow> Inl (TypeError ''Cannot destructure property of undefined'')
        | Inr (mPDA, mData) \<Rightarrow>
            Inr \<lparr>ei_editionType = PrintV1, ei_editionPDA = Some (Edition_getPDA w mnt),
                 ei_editionData = Some ed, ei_masterEditionPDA = Some mPDA,
                 ei_masterEditionData = Some mData\<rparr>)"
  by (simp add: getEditionInfoByMint_def io_bind_io_call Let_def io_bind_okToFailAsync
      getEnumKeyByEnumValue_def io_throw_def io_return_def getParentEdition_eq
      split: sum.split)

lemma getEditionInfoByMint_master:
  "Account_getInfo w (Edition_getPDA w mnt) = Inr info \<Longrightarrow>
   leading_tag info = Some MetadataKey_MasterEditionV1 \<or>
   leading_tag info = Some MetadataKey_MasterEditionV2 \<Longrightarrow>
     getEditionInfoByMint w mnt =
       ([AccountGetInfo (Edition_getPDA w mnt)],
        case MasterEdition_decode w (Edition_getPDA w mnt) info of
          Inl e \<Rightarrow> Inl e
        | Inr mData \<Rightarrow>
            Inr \<lparr>ei_editionType =
                   (if leading_tag info = Some MetadataKey_MasterEditionV1 then MasterV1
                    else MasterV2),
                 ei_editionPDA = None, ei_editionData = None,
                 ei_masterEditionPDA = Some (Edition_getPDA w mnt),
                 ei_masterEditionData = Some mData\<rparr>)"
  using MetadataKey_distinct
  by (auto simp add: getEditionInfoByMint_def io_bind_io_call Let_def
      getEnumKeyByEnumValue_def io_throw_def io_return_def split: sum.split)

lemma getEditionInfoByMint_other:
  "Account_getInfo w (Edition_getPDA w mnt) = Inr info \<Longrightarrow>
   leading_tag info \<noteq> Some MetadataKey_EditionV1 \<Longrightarrow>
   leading_tag info \<noteq> Some MetadataKey_MasterEditionV1 \<Longrightarrow>
   leading_tag info \<noteq> Some MetadataKey_MasterEditionV2 \<Longrightarrow>
     getEditionInfoByMint w mnt =
       ([AccountGetInfo (Edition_getPDA w mnt)],
        Inr \<lparr>ei_editionType = Unknown, ei_editionPDA = None, ei_editionData = None,
             ei_masterEditionPDA = None, ei_masterEditionData = None\<rparr>)"
  by (simp add: getEditionInfoByMint_def io_bind_io_call Let_def
      getEnumKeyByEnumValue_def io_return_def)

section \<open>Holder lookup\<close>

text \<open>
  C8. Whenever the ledger answers the ranked-accounts query for a mint, the holder lookup
  makes that one query and resolves (it does not reject): with the address of the first
  entry of the ranked list, whatever that entry's amount and whatever entries follow it,
  and with an absent value when the ranked list is empty.
\<close>

theorem getHolderByMint_first_or_absent:
  "getTokenLargestAccounts w mnt = Inr (Some resp) \<Longrightarrow>
     getHolderByMint w mnt =
       ([GetTokenLargestAccounts mnt],
        Inr (case rr_value resp of [] \<Rightarrow> None | first # rest \<Rightarrow> Some (tp_address first)))"
  by (simp add: getHolderByMint_def io_bind_io_call io_return_def split: list.split)

theorem getHolderByMint_first_or_absent_witness:
  "getTokenLargestAccounts sample_world ''A'' =
     Inr (Some \<lparr>rr_slot = 7, rr_value =
       [\<lparr>tp_address = ''holderA'', tp_amount = 0\<rparr>, \<lparr>tp_address = ''holderA2'', tp_amount = 5\<rparr>]\<rparr>) \<and>
   getHolderByMint sample_world ''A'' = ([GetTokenLargestAccounts ''A''], Inr (Some ''holderA'')) \<and>
   getTokenLargestAccounts sample_world ''B'' = Inr (Some \<lparr>rr_slot = 7, rr_value = []\<rparr>) \<and>
   getHolderByMint sample_world ''B'' = ([GetTokenLargestAccounts ''B''], Inr None)"
proof -
  have a: "getTokenLargestAccounts sample_world ''A'' =
     Inr (Some \<lparr>rr_slot = 7, rr_value =
       [\<lparr>tp_address = ''holderA'', tp_amount = 0\<rparr>, \<lparr>tp_address = ''holderA2'', tp_amount = 5\<rparr>]\<rparr>)"
    by (simp add: sample_world_def)
  have b: "getTokenLargestAccounts sample_world ''B'' = Inr (Some \<lparr>rr_slot = 7, rr_value = []\<rparr>)"
    by (simp add: sample_world_def)
  show ?thesis
    using a b getHolderByMint_first_or_absent [OF a] getHolderByMint_first_or_absent [OF b]
    by simp
qed

section \<open>The enrichment merge\<close>

lemma snd_enrich_task:
  "snd (enrich_task w n) =
     Inr (let holder = (case snd (getHolderByMint w (md_mint (metadataOnchain n))) of
                          Inl e \<Rightarrow> None | Inr a \<Rightarrow> a);
              ed = (case snd (getEditionInfoByMint w (mint n)) of
                      Inl e \<Rightarrow> None | Inr ei \<Rightarrow> Some ei)
          in \<lparr>en_mint = mint n,
              en_address = holder,
              en_splTokenInfo =
                (case deserializeTokenAccount w (mint n) holder of
                   Inl e \<Rightarrow> None | Inr x \<Rightarrow> Some x),
              en_splMintInfo =
                (case deserializeTokenMint w (mint n) of Inl e \<Rightarrow> None | Inr x \<Rightarrow> Some x),
              en_metadataExternal =
                (case snd (getExternalMetadata w (mdd_uri (md_data (metadataOnchain n)))) of
                   Inl e \<Rightarrow> None | Inr x \<Rightarrow> x),
              en_editionType = map_option ei_editionType ed,
              en_editionPDA = Option.bind ed ei_editionPDA,
              en_editionData = Option.bind ed ei_editionData,
              en_masterEditionPDA = Option.bind ed ei_masterEditionPDA,
              en_masterEditionData = Option.bind ed ei_masterEditionData\<rparr>)"
  by (simp add: enrich_task_def io_bind_okToFailAsync Let_def io_return_def io_call_def
      split: sum.split)

lemma fst_enrich_task:
  "fst (enrich_task w n) =
     fst (getHolderByMint w (md_mint (metadataOnchain n))) @
     DeserializeTokenAccount (mint n)
       (case snd (getHolderByMint w (md_mint (metadataOnchain n))) of
          Inl e \<Rightarrow> None | Inr a \<Rightarrow> a) #
     DeserializeTokenMint (mint n) #
     fst (getExternalMetadata w (mdd_uri (md_data (metadataOnchain n)))) @
     fst (getEditionInfoByMint w (mint n))"
  by (simp add: enrich_task_def io_bind_okToFailAsync Let_def io_return_def io_call_def
      split: sum.split)

lemma Promise_all_map:
  assumes "\<And>x. snd (f x) = Inr (g x)"
  shows "Promise_all (map f xs) = (concat (map (\<lambda>x. fst (f x)) xs), Inr (map g xs))"
proof (induction xs)
  case Nil
  show ?case by simp
next
  case (Cons a xs)
  obtain t r where fa: "f a = (t, r)" by (cases "f a")
  with assms [of a] have r: "r = Inr (g a)" by simp
  show ?case using Cons fa r by simp
qed

lemma enrich_task_resolves:
  "snd (enrich_task w n) = Inr (projr (snd (enrich_task w n)))"
  by (simp add: snd_enrich_task)


lemma turnMetadatasIntoNFTs_eq:
  "turnMetadatasIntoNFTs w ms =
     (concat (map (\<lambda>n. fst (enrich_task w n)) (deserializeMetadataOnchain ms)),
      Inr (joinArraysOnKey (deserializeMetadataOnchain ms)
             (map (\<lambda>n. projr (snd (enrich_task w n))) (deserializeMetadataOnchain ms))
             mint en_mint spread_enriched))"
  by (simp add: turnMetadatasIntoNFTs_def Let_def io_return_def
      Promise_all_map [of "enrich_task w", OF enrich_task_resolves] io_bind_def)










section \<open>The entry point\<close>

lemma list_all_fetch_getEditionInfoByMint:
  "list_all is_account_fetch (fst (getEditionInfoByMint w mnt))"
proof (cases "Account_getInfo w (Edition_getPDA w mnt)")
  case (Inl e)
  then show ?thesis by (simp add: getEditionInfoByMint_fetch_fails)
next
  case (Inr info)
  consider (print) "leading_tag info = Some MetadataKey_EditionV1"
    | (master) "leading_tag info = Some MetadataKey_MasterEditionV1 \<or>
                leading_tag info = Some MetadataKey_MasterEditionV2"
    | (other) "leading_tag info \<noteq> Some MetadataKey_EditionV1"
        "leading_tag info \<noteq> Some MetadataKey_MasterEditionV1"
        "leading_tag info \<noteq> Some MetadataKey_MasterEditionV2"
    by blast
  then show ?thesis
  proof cases
    case print
    show ?thesis
    proof (cases "Edition_decode w (Edition_getPDA w mnt) info")
      case (Inl e)
      with Inr print show ?thesis by (simp add: getEditionInfoByMint_print_undecodable)
    next
      case (Inr ed)
      with \<open>Account_getInfo w (Edition_getPDA w mnt) = Inr info\<close> print show ?thesis
        by (simp add: getEditionInfoByMint_print)
    qed
  next
    case master
    with Inr show ?thesis by (simp add: getEditionInfoByMint_master)
  next
    case other
    with Inr show ?thesis by (simp add: getEditionInfoByMint_other)
  qed
qed

lemma filter_enrich_task:
  assumes "\<And>ef. P ef \<Longrightarrow> is_emit ef \<or> is_locator_query ef"
  shows "filter P (fst (enrich_task w n)) = []"
proof -
  have "\<not> P ef" if "is_account_fetch ef" for ef
    using that assms [of ef] by (cases ef) auto
  then have "filter P (fst (getEditionInfoByMint w (mint n))) = []"
    using list_all_fetch_getEditionInfoByMint [of w "mint n"]
    by (auto simp: filter_empty_conv list_all_iff)
  moreover have "\<not> P (GetTokenLargestAccounts a)" "\<not> P (DeserializeTokenAccount a b)"
    "\<not> P (DeserializeTokenMint a)" "\<not> P (AxiosGet u)" for a b u
    using assms by fastforce+
  ultimately show ?thesis
    by (simp add: fst_enrich_task fst_getHolderByMint fst_getExternalMetadata)
qed

lemma filter_turnMetadatasIntoNFTs:
  assumes "\<And>ef. P ef \<Longrightarrow> is_emit ef \<or> is_locator_query ef"
  shows "filter P (fst (turnMetadatasIntoNFTs w ms)) = []"
  by (simp add: turnMetadatasIntoNFTs_eq filter_concat filter_enrich_task [OF assms] comp_def)

lemma locate_metadatas_owner:
  "p_owner p = Some owner \<Longrightarrow>
     locate_metadatas w p = ([(FindByOwnerV2 owner)], findByOwnerV2 w owner)"
  by (simp add: locate_metadatas_def getMetadataByOwner_def io_call_def)

lemma locate_metadatas_creators:
  "p_owner p = None \<Longrightarrow> p_creators p = Some cs \<Longrightarrow> cs \<noteq> [] \<Longrightarrow>
     locate_metadatas w p =
       ([FindMany (FilterCreators cs)], findMany w (FilterCreators cs))"
  by (simp add: locate_metadatas_def getMetadataByCreators_def io_call_def)

lemma locate_metadatas_mint:
  "p_owner p = None \<Longrightarrow> p_creators p = None \<or> p_creators p = Some [] \<Longrightarrow>
   p_mint p = Some mnt \<Longrightarrow>
     locate_metadatas w p = ([FindMany (FilterMint mnt)], findMany w (FilterMint mnt))"
  by (auto simp add: locate_metadatas_def getMetadataByMint_def io_call_def)

lemma locate_metadatas_updateAuthority:
  "p_owner p = None \<Longrightarrow> p_creators p = None \<or> p_creators p = Some [] \<Longrightarrow>
   p_mint p = None \<Longrightarrow> p_updateAuthority p = Some ua \<Longrightarrow>
     locate_metadatas w p =
       ([FindMany (FilterUpdateAuthority ua)], findMany w (FilterUpdateAuthority ua))"
  by (auto simp add: locate_metadatas_def getMetadataByUpdateAuthority_def io_call_def)

lemma locate_metadatas_none:
  "p_owner p = None \<Longrightarrow> p_creators p = None \<or> p_creators p = Some [] \<Longrightarrow>
   p_mint p = None \<Longrightarrow> p_updateAuthority p = None \<Longrightarrow>
     locate_metadatas w p = ([], Inl InvalidSelector)"
  by (auto simp add: locate_metadatas_def io_throw_def)

lemma getNFTs_eq:
  "getNFTs w p =
     (case snd (locate_metadatas w p) of
        Inl e \<Rightarrow> (fst (locate_metadatas w p), Inl e)
      | Inr ms \<Rightarrow>
          (if ms = [] then (fst (locate_metadatas w p), Inr [])
           else (fst (locate_metadatas w p) @
                   EmitLoading (loading_params (length ms)) # fst (turnMetadatasIntoNFTs w ms),
                 snd (turnMetadatasIntoNFTs w ms))))"
  by (cases "locate_metadatas w p")
    (simp add: getNFTs_def io_bind_def io_call_def io_return_def split: sum.split prod.split)

lemma queries_of_getNFTs:
  "locate_metadatas w p = ([q], r) \<Longrightarrow> is_locator_query q \<Longrightarrow>
     filter is_locator_query (fst (getNFTs w p)) = [q]"
  by (simp add: getNFTs_eq filter_turnMetadatasIntoNFTs split: sum.split)

text \<open>
  C2. Whatever else is set, \<^verbatim>\<open>getNFTs\<close> issues exactly one locator query, for one selector:
  the owner when an owner is given; otherwise the creators when a non-empty creators array
  is given; otherwise the mint when one is given; otherwise the update authority.
\<close>

theorem getNFTs_selector_priority:
  "(p_owner p = Some owner \<longrightarrow>
      filter is_locator_query (fst (getNFTs w p)) = [(FindByOwnerV2 owner)]) \<and>
   (p_owner p = None \<and> p_creators p = Some cs \<and> cs \<noteq> [] \<longrightarrow>
      filter is_locator_query (fst (getNFTs w p)) = [FindMany (FilterCreators cs)]) \<and>
   (p_owner p = None \<and> (p_creators p = None \<or> p_creators p = Some []) \<and>
    p_mint p = Some mnt \<longrightarrow>
      filter is_locator_query (fst (getNFTs w p)) = [FindMany (FilterMint mnt)]) \<and>
   (p_owner p = None \<and> (p_creators p = None \<or> p_creators p = Some []) \<and>
    p_mint p = None \<and> p_updateAuthority p = Some ua \<longrightarrow>
      filter is_locator_query (fst (getNFTs w p)) =
        [FindMany (FilterUpdateAuthority ua)])"
  using queries_of_getNFTs [OF locate_metadatas_owner]
    queries_of_getNFTs [OF locate_metadatas_creators]
    queries_of_getNFTs [OF locate_metadatas_mint]
    queries_of_getNFTs [OF locate_metadatas_updateAuthority]
  by simp

theorem getNFTs_selector_priority_witness:
  "filter is_locator_query
     (fst (getNFTs sample_world
        \<lparr>p_owner = Some ''owner1'', p_creators = Some [''c1''], p_mint = Some ''A'',
         p_updateAuthority = Some ''authority1''\<rparr>)) = [(FindByOwnerV2 ''owner1'')] \<and>
   filter is_locator_query
     (fst (getNFTs sample_world
        \<lparr>p_owner = None, p_creators = Some [''c1''], p_mint = Some ''A'',
         p_updateAuthority = Some ''authority1''\<rparr>)) = [FindMany (FilterCreators [''c1''])] \<and>
   filter is_locator_query
     (fst (getNFTs sample_world
        \<lparr>p_owner = None, p_creators = None, p_mint = Some ''A'',
         p_updateAuthority = Some ''authority1''\<rparr>)) = [FindMany (FilterMint ''A'')] \<and>
   filter is_locator_query
     (fst (getNFTs sample_world
        \<lparr>p_owner = None, p_creators = None, p_mint = None,
         p_updateAuthority = Some ''authority1''\<rparr>)) =
     [FindMany (FilterUpdateAuthority ''authority1'')]"
  using getNFTs_selector_priority [of
      "\<lparr>p_owner = Some ''owner1'', p_creators = Some [''c1''], p_mint = Some ''A'',
        p_updateAuthority = Some ''authority1''\<rparr>" "''owner1''" sample_world]
    getNFTs_selector_priority [of
      "\<lparr>p_owner = None, p_creators = Some [''c1''], p_mint = Some ''A'',
        p_updateAuthority = Some ''authority1''\<rparr>" _ sample_world "[''c1'']"]
    getNFTs_selector_priority [of
      "\<lparr>p_owner = None, p_creators = None, p_mint = Some ''A'',
        p_updateAuthority = Some ''authority1''\<rparr>" _ sample_world _ "''A''"]
    getNFTs_selector_priority [of
      "\<lparr>p_owner = None, p_creators = None, p_mint = None,
        p_updateAuthority = Some ''authority1''\<rparr>" _ sample_world _ _ "''authority1''"]
  by simp

text \<open>
  C3. With none of owner, creators, mint and updateAuthority given, \<^verbatim>\<open>getNFTs\<close> rejects
  with the InvalidSelector error and has issued nothing: no locator query, no progress
  emission, no enrichment call.
\<close>

theorem getNFTs_no_selector:
  "p_owner p = None \<Longrightarrow> p_creators p = None \<Longrightarrow> p_mint p = None \<Longrightarrow>
   p_updateAuthority p = None \<Longrightarrow>
     getNFTs w p = ([], Inl InvalidSelector)"
  by (simp add: getNFTs_eq locate_metadatas_none)

theorem getNFTs_no_selector_witness:
  "getNFTs sample_world
     \<lparr>p_owner = None, p_creators = None, p_mint = None, p_updateAuthority = None\<rparr> =
   ([], Inl (Error ''You must pass one of owner / creators / mint / updateAuthority''))"
  using getNFTs_no_selector [of
      "\<lparr>p_owner = None, p_creators = None, p_mint = None, p_updateAuthority = None\<rparr>"
      sample_world]
  by (simp add: InvalidSelector_def)

text \<open>
  C10. An empty creators array counts as no creators selector. With no owner and an empty
  creators array, \<^verbatim>\<open>getNFTs\<close> rejects with the InvalidSelector error (and has issued
  nothing) when neither mint nor updateAuthority is given; it queries by the mint when a
  mint is given, and by the update authority when only that is given.
\<close>

theorem getNFTs_empty_creators:
  "p_owner p = None \<Longrightarrow> p_creators p = Some [] \<Longrightarrow>
     (p_mint p = None \<and> p_updateAuthority p = None \<longrightarrow>
        getNFTs w p = ([], Inl InvalidSelector)) \<and>
     (p_mint p = Some mnt \<longrightarrow>
        filter is_locator_query (fst (getNFTs w p)) = [FindMany (FilterMint mnt)]) \<and>
     (p_mint p = None \<and> p_updateAuthority p = Some ua \<longrightarrow>
        filter is_locator_query (fst (getNFTs w p)) =
          [FindMany (FilterUpdateAuthority ua)])"
  using queries_of_getNFTs [OF locate_metadatas_mint, of p mnt w]
    queries_of_getNFTs [OF locate_metadatas_updateAuthority, of p ua w]
  by (simp add: getNFTs_eq locate_metadatas_none)

theorem getNFTs_empty_creators_witness:
  "getNFTs sample_world
     \<lparr>p_owner = None, p_creators = Some [], p_mint = None, p_updateAuthority = None\<rparr> =
     ([], Inl (Error ''You must pass one of owner / creators / mint / updateAuthority'')) \<and>
   filter is_locator_query
     (fst (getNFTs sample_world
        \<lparr>p_owner = None, p_creators = Some [], p_mint = Some ''A'',
         p_updateAuthority = Some ''authority1''\<rparr>)) = [FindMany (FilterMint ''A'')] \<and>
   filter is_locator_query
     (fst (getNFTs sample_world
        \<lparr>p_owner = None, p_creators = Some [], p_mint = None,
         p_updateAuthority = Some ''authority1''\<rparr>)) =
     [FindMany (FilterUpdateAuthority ''authority1'')]"
  using getNFTs_empty_creators [of
      "\<lparr>p_owner = None, p_creators = Some [], p_mint = None, p_updateAuthority = None\<rparr>"
      sample_world]
    getNFTs_empty_creators [of
      "\<lparr>p_owner = None, p_creators = Some [], p_mint = Some ''A'',
        p_updateAuthority = Some ''authority1''\<rparr>" sample_world "''A''"]
    getNFTs_empty_creators [of
      "\<lparr>p_owner = None, p_creators = Some [], p_mint = None,
        p_updateAuthority = Some ''authority1''\<rparr>" sample_world _ "''authority1''"]
  by (simp add: InvalidSelector_def)

lemma locate_metadatas_trace: "list_all is_locator_query (fst (locate_metadatas w p))"
  by (simp add: locate_metadatas_def getMetadataByOwner_def getMetadataByCreators_def
      getMetadataByMint_def getMetadataByUpdateAuthority_def io_call_def io_throw_def
      split: option.split)

text \<open>
  C4. When the locator query of the honored selector returns no record, \<^verbatim>\<open>getNFTs\<close>
  resolves with the empty collection and has issued nothing but the locator query: no
  progress emission, no enrichment call. When it returns a non-empty set, the trace is the
  locator query, then one progress emission whose text carries the number of base records,
  then the effects of the enrichment of that set, none of which is an emission; so exactly
  one emission happens, and the result is that of the enrichment.
\<close>

theorem getNFTs_progress_emission:
  "(locate_metadatas w p = (t, Inr []) \<longrightarrow>
      getNFTs w p = (t, Inr []) \<and> list_all is_locator_query t) \<and>
   (locate_metadatas w p = (t, Inr ms) \<and> ms \<noteq> [] \<longrightarrow>
      getNFTs w p =
        (t @ EmitLoading (loading_params (length ms)) # fst (turnMetadatasIntoNFTs w ms),
         snd (turnMetadatasIntoNFTs w ms)) \<and>
      list_all is_locator_query t \<and>
      filter is_emit (fst (turnMetadatasIntoNFTs w ms)) = [] \<and>
      filter is_emit (fst (getNFTs w p)) = [EmitLoading (loading_params (length ms))])"
proof -
  have q: "list_all is_locator_query t" if "locate_metadatas w p = (t, r)" for r
    using locate_metadatas_trace [of w p] that by simp
  have no_emit: "filter is_emit t = []" if "list_all is_locator_query t"
  proof -
    have "\<not> is_emit ef" if "is_locator_query ef" for ef
      using that by (cases ef) auto
    with \<open>list_all is_locator_query t\<close> show ?thesis
      by (auto simp: filter_empty_conv list_all_iff)
  qed
  have e: "filter is_emit (fst (turnMetadatasIntoNFTs w ms)) = []"
    by (rule filter_turnMetadatasIntoNFTs) simp
  show ?thesis
    using q no_emit e by (auto simp add: getNFTs_eq)
qed

theorem getNFTs_progress_emission_witness:
  "locate_metadatas sample_world
     \<lparr>p_owner = Some ''nobody'', p_creators = None, p_mint = None, p_updateAuthority = None\<rparr> =
     ([(FindByOwnerV2 ''nobody'')], Inr []) \<and>
   getNFTs sample_world
     \<lparr>p_owner = Some ''nobody'', p_creators = None, p_mint = None, p_updateAuthority = None\<rparr> =
     ([(FindByOwnerV2 ''nobody'')], Inr []) \<and>
   locate_metadatas sample_world
     \<lparr>p_owner = Some ''owner1'', p_creators = None, p_mint = None, p_updateAuthority = None\<rparr> =
     ([(FindByOwnerV2 ''owner1'')],
      Inr [sample_metadata ''A'' ''https://x/a.json'',
           sample_metadata ''B'' ''https://x/1.json'']) \<and>
   filter is_emit
     (fst (getNFTs sample_world
        \<lparr>p_owner = Some ''owner1'', p_creators = None, p_mint = None,
         p_updateAuthority = None\<rparr>)) =
     [EmitLoading \<lparr>newStatus = Loading, newProgress = 50, maxProgress = 90,
        newText = ''Found a total of 2 NFTs. Fetching metadata...''\<rparr>]"
proof -
  let ?p0 = "\<lparr>p_owner = Some ''nobody'', p_creators = None, p_mint = None,
               p_updateAuthority = None\<rparr>"
  let ?p2 = "\<lparr>p_owner = Some ''owner1'', p_creators = None, p_mint = None,
               p_updateAuthority = None\<rparr>"
  let ?ms = "[sample_metadata ''A'' ''https://x/a.json'',
              sample_metadata ''B'' ''https://x/1.json'']"
  have l0: "locate_metadatas sample_world ?p0 = ([(FindByOwnerV2 ''nobody'')], Inr [])"
    by (simp add: locate_metadatas_owner sample_world_def)
  have l2: "locate_metadatas sample_world ?p2 = ([(FindByOwnerV2 ''owner1'')], Inr ?ms)"
    by (simp add: locate_metadatas_owner sample_world_def)
  have text2: "loading_params (length ?ms) =
      \<lparr>newStatus = Loading, newProgress = 50, maxProgress = 90,
       newText = ''Found a total of 2 NFTs. Fetching metadata...''\<rparr>"
    by code_simp
  show ?thesis
    using l0 l2 text2
      getNFTs_progress_emission [of sample_world ?p0 "[(FindByOwnerV2 ''nobody'')]"]
      getNFTs_progress_emission [of sample_world ?p2 "[(FindByOwnerV2 ''owner1'')]" ?ms]
    by simp
qed

section \<open>Edition resolution\<close>

lemma getEditionInfoByMint_cases:
  obtains (unreadable) e where "Account_getInfo w (Edition_getPDA w mnt) = Inl e"
      "getEditionInfoByMint w mnt = ([AccountGetInfo (Edition_getPDA w mnt)], Inl e)"
  | (print_undecodable) info e where "Account_getInfo w (Edition_getPDA w mnt) = Inr info"
      "leading_tag info = Some MetadataKey_EditionV1"
      "Edition_decode w (Edition_getPDA w mnt) info = Inl e"
      "getEditionInfoByMint w mnt = ([AccountGetInfo (Edition_getPDA w mnt)], Inl e)"
  | (print) info ed where "Account_getInfo w (Edition_getPDA w mnt) = Inr info"
      "leading_tag info = Some MetadataKey_EditionV1"
      "Edition_decode w (Edition_getPDA w mnt) info = Inr ed"
      "getEditionInfoByMint w mnt =
         ([AccountGetInfo (Edition_getPDA w mnt), AccountGetInfo (ed_parent ed)],
          case snd (getParentEdition w ed) of
            Inl e \<Rightarrow> Inl (TypeError ''Cannot destructure property of undefined'')
          | Inr (mPDA, mData) \<Rightarrow>
              Inr \<lparr>ei_editionType = PrintV1, ei_editionPDA = Some (Edition_getPDA w mnt),
                   ei_editionData = Some ed, ei_masterEditionPDA = Some mPDA,
                   ei_masterEditionData = Some mData\<rparr>)"
  | (master) info where "Account_getInfo w (Edition_getPDA w mnt) = Inr info"
      "leading_tag info = Some MetadataKey_MasterEditionV1 \<or>
       leading_tag info = Some MetadataKey_MasterEditionV2"
      "getEditionInfoByMint w mnt =
         ([AccountGetInfo (Edition_getPDA w mnt)],
          case MasterEdition_decode w (Edition_getPDA w mnt) info of
            Inl e \<Rightarrow> Inl e
          | Inr mData \<Rightarrow>
              Inr \<lparr>ei_editionType =
                     (if leading_tag info = Some MetadataKey_MasterEditionV1 then MasterV1
                      else MasterV2),
                   ei_editionPDA = None, ei_editionData = None,
                   ei_masterEditionPDA = Some (Edition_getPDA w mnt),
                   ei_masterEditionData = Some mData\<rparr>)"
  | (other) info where "Account_getInfo w (Edition_getPDA w mnt) = Inr info"
      "getEditionInfoByMint w mnt =
         ([AccountGetInfo (Edition_getPDA w mnt)],
          Inr \<lparr>ei_editionType = Unknown, ei_editionPDA = None, ei_editionData = None,
               ei_masterEditionPDA = None, ei_masterEditionData = None\<rparr>)"
proof (cases "Account_getInfo w (Edition_getPDA w mnt)")
  case (Inl e)
  then show ?thesis using unreadable getEditionInfoByMint_fetch_fails by blast
next
  case (Inr info)
  note fetched = this
  consider (p) "leading_tag info = Some MetadataKey_EditionV1"
    | (m) "leading_tag info = Some MetadataKey_MasterEditionV1 \<or>
           leading_tag info = Some MetadataKey_MasterEditionV2"
    | (o) "leading_tag info \<noteq> Some MetadataKey_EditionV1"
        "leading_tag info \<noteq> Some MetadataKey_MasterEditionV1"
        "leading_tag info \<noteq> Some MetadataKey_MasterEditionV2"
    by blast
  then show ?thesis
  proof cases
    case p
    show ?thesis
    proof (cases "Edition_decode w (Edition_getPDA w mnt) info")
      case (Inl e)
      with fetched p show ?thesis
        using print_undecodable getEditionInfoByMint_print_undecodable by blast
    next
      case (Inr ed)
      with fetched p show ?thesis
        using print getEditionInfoByMint_print by blast
    qed
  next
    case m
    with fetched show ?thesis using master getEditionInfoByMint_master by blast
  next
    case o
    with fetched show ?thesis using other getEditionInfoByMint_other by blast
  qed
qed

text \<open>
  C7, as the code has it. In every EditionInfo that edition resolution returns: editionData
  is present only for a print (so only for Print/Master classifications), and then together
  with its address; masterEditionAddress is present only for the PrintV1 classification
  (the parent link) and for the MasterV1 and MasterV2 classifications, where it is the
  token's own edition address and editionData is absent; masterEditionData is present only
  when a master edition was resolved: fetched from the account at masterEditionAddress and
  decoded.
\<close>

theorem edition_info_field_presence:
  assumes "snd (getEditionInfoByMint w mnt) = Inr ei"
  shows "(ei_editionData ei \<noteq> None \<longrightarrow> ei_editionPDA ei \<noteq> None \<and> ei_editionType ei = PrintV1) \<and>
     (ei_masterEditionPDA ei \<noteq> None \<longrightarrow>
        ei_editionType ei = PrintV1 \<or> ei_editionType ei = MasterV1 \<or>
        ei_editionType ei = MasterV2) \<and>
     (ei_editionType ei = MasterV1 \<or> ei_editionType ei = MasterV2 \<longrightarrow>
        ei_masterEditionPDA ei = Some (Edition_getPDA w mnt) \<and> ei_editionData ei = None) \<and>
     (\<forall>d. ei_masterEditionData ei = Some d \<longrightarrow>
        (\<exists>a info. ei_masterEditionPDA ei = Some a \<and> Account_getInfo w a = Inr info \<and>
           MasterEdition_decode w a info = Inr d))"
proof (cases rule: getEditionInfoByMint_cases [of w mnt])
  case (unreadable e)
  with assms show ?thesis by simp
next
  case (print_undecodable info e)
  with assms show ?thesis by simp
next
  case (print info ed)
  with assms show ?thesis
    by (auto simp: getParentEdition_eq split: sum.splits)
next
  case (master info)
  with assms show ?thesis
    by (auto simp: MetadataKey_distinct MetadataKey_distinct [symmetric] split: sum.splits)
next
  case (other info)
  with assms show ?thesis by auto
qed

theorem edition_info_field_presence_witness:
  "snd (getEditionInfoByMint sample_world ''B'') =
     Inr \<lparr>ei_editionType = PrintV1, ei_editionPDA = Some ''edition:B'',
          ei_editionData = Some \<lparr>ed_parent = ''edition:A'', ed_edition = 9\<rparr>,
          ei_masterEditionPDA = Some ''edition:A'',
          ei_masterEditionData = Some \<lparr>med_supply = 9, med_maxSupply = Some 10\<rparr>\<rparr> \<and>
   (\<exists>info. Account_getInfo sample_world ''edition:A'' = Inr info \<and>
      MasterEdition_decode sample_world ''edition:A'' info =
        Inr \<lparr>med_supply = 9, med_maxSupply = Some 10\<rparr>)"
proof -
  have r: "snd (getEditionInfoByMint sample_world ''B'') =
     Inr \<lparr>ei_editionType = PrintV1, ei_editionPDA = Some ''edition:B'',
          ei_editionData = Some \<lparr>ed_parent = ''edition:A'', ed_edition = 9\<rparr>,
          ei_masterEditionPDA = Some ''edition:A'',
          ei_masterEditionData = Some \<lparr>med_supply = 9, med_maxSupply = Some 10\<rparr>\<rparr>"
    by code_simp
  from edition_info_field_presence [OF r] show ?thesis using r by simp
qed

text \<open>
  The claim as written fails for a master edition: mint A is classified MasterV2 and its
  masterEditionAddress is present (lines 112-116 set it to the edition address itself).
\<close>

theorem master_edition_address_counterexample:
  "snd (getEditionInfoByMint sample_world ''A'') =
     Inr \<lparr>ei_editionType = MasterV2, ei_editionPDA = None, ei_editionData = None,
          ei_masterEditionPDA = Some ''edition:A'',
          ei_masterEditionData = Some \<lparr>med_supply = 9, med_maxSupply = Some 10\<rparr>\<rparr>"
  by code_simp

text \<open>
  C6. A print whose parent master-edition fetch fails should still be returned as PrintV1
  with its own edition address and data. Mint C is such a print (tag EditionV1, decodable,
  parent account not fetchable): the adapter around the parent lookup yields the absent
  value, the destructuring of line 108 throws, \<^verbatim>\<open>getEditionInfoByMint\<close> rejects, and in the
  enriched record of C no edition field is left, not even editionType.
\<close>

theorem print_parent_failure_raises:
  "Account_getInfo sample_world ''edition:C'' = Inr (Some (sample_account [1, 3])) \<and>
   Edition_decode sample_world ''edition:C'' (Some (sample_account [1, 3])) =
     Inr \<lparr>ed_parent = ''gone'', ed_edition = 3\<rparr> \<and>
   Account_getInfo sample_world ''gone'' = Inl (Error ''Unable to find account'') \<and>
   getEditionInfoByMint sample_world ''C'' =
     ([AccountGetInfo ''edition:C'', AccountGetInfo ''gone''],
      Inl (TypeError ''Cannot destructure property of undefined'')) \<and>
   map editionType
     (projr (snd (turnMetadatasIntoNFTs sample_world [sample_metadata ''C'' ''https://x/c.json'']))) =
     [None]"
  by code_simp

text \<open>The same on any ledger: a failed parent lookup makes the resolution of a print reject.\<close>

lemma getEditionInfoByMint_parent_failure:
  "Account_getInfo w (Edition_getPDA w mnt) = Inr info \<Longrightarrow>
   leading_tag info = Some MetadataKey_EditionV1 \<Longrightarrow>
   Edition_decode w (Edition_getPDA w mnt) info = Inr ed \<Longrightarrow>
   snd (getParentEdition w ed) = Inl e \<Longrightarrow>
     snd (getEditionInfoByMint w mnt) =
       Inl (TypeError ''Cannot destructure property of undefined'')"
  by (simp add: getEditionInfoByMint_print)

text \<open>
  C5, as the code has it. When the primary edition account is fetched with leading tag
  MasterEditionV2 and its master-edition data decodes, resolution returns
  editionType=MasterV2 and the primary fetch is the only account fetch. When the tag is
  EditionV1 and the print data decodes, exactly one further fetch is attempted, of the
  parent address, and when the parent resolves the result is editionType=PrintV1 with the
  print's and the parent's data. When the primary fetch returns no account (or an account
  without a leading byte), resolution returns editionType=Unknown with editionAddress,
  editionData, masterEditionAddress and masterEditionData absent. When the primary fetch
  itself fails, or the data under a MasterEditionV2 or an EditionV1 tag does not decode,
  \<^verbatim>\<open>getEditionInfoByMint\<close> rejects with that failure after the one primary fetch, and the
  adapter at the orchestrator's call site turns the rejection into the empty structure, in
  which no edition field, editionType included, is present.
\<close>

theorem getEditionInfoByMint_classification:
  "(Account_getInfo w (Edition_getPDA w mnt) = Inr info \<and>
    leading_tag info = Some MetadataKey_MasterEditionV2 \<and>
    MasterEdition_decode w (Edition_getPDA w mnt) info = Inr mData \<longrightarrow>
      getEditionInfoByMint w mnt =
        ([AccountGetInfo (Edition_getPDA w mnt)],
         Inr \<lparr>ei_editionType = MasterV2, ei_editionPDA = None, ei_editionData = None,
              ei_masterEditionPDA = Some (Edition_getPDA w mnt),
              ei_masterEditionData = Some mData\<rparr>)) \<and>
   (Account_getInfo w (Edition_getPDA w mnt) = Inr info \<and>
    leading_tag info = Some MetadataKey_EditionV1 \<and>
    Edition_decode w (Edition_getPDA w mnt) info = Inr ed \<longrightarrow>
      fst (getEditionInfoByMint w mnt) =
        [AccountGetInfo (Edition_getPDA w mnt), AccountGetInfo (ed_parent ed)] \<and>
      (snd (getParentEdition w ed) = Inr (mPDA, mData') \<longrightarrow>
         snd (getEditionInfoByMint w mnt) =
           Inr \<lparr>ei_editionType = PrintV1, ei_editionPDA = Some (Edition_getPDA w mnt),
                ei_editionData = Some ed, ei_masterEditionPDA = Some mPDA,
                ei_masterEditionData = Some mData'\<rparr>)) \<and>
   (Account_getInfo w (Edition_getPDA w mnt) = Inr info \<and> leading_tag info = None \<longrightarrow>
      getEditionInfoByMint w mnt =
        ([AccountGetInfo (Edition_getPDA w mnt)],
         Inr \<lparr>ei_editionType = Unknown, ei_editionPDA = None, ei_editionData = None,
              ei_masterEditionPDA = None, ei_masterEditionData = None\<rparr>)) \<and>
   (Account_getInfo w (Edition_getPDA w mnt) = Inl e \<longrightarrow>
      getEditionInfoByMint w mnt = ([AccountGetInfo (Edition_getPDA w mnt)], Inl e) \<and>
      okToFailAsync (getEditionInfoByMint w mnt) True =
        ([AccountGetInfo (Edition_getPDA w mnt)], Inr EmptyObject)) \<and>
   (Account_getInfo w (Edition_getPDA w mnt) = Inr info \<and>
    leading_tag info = Some MetadataKey_MasterEditionV2 \<and>
    MasterEdition_decode w (Edition_getPDA w mnt) info = Inl e \<longrightarrow>
      getEditionInfoByMint w mnt = ([AccountGetInfo (Edition_getPDA w mnt)], Inl e) \<and>
      okToFailAsync (getEditionInfoByMint w mnt) True =
        ([AccountGetInfo (Edition_getPDA w mnt)], Inr EmptyObject)) \<and>
   (Account_getInfo w (Edition_getPDA w mnt) = Inr info \<and>
    leading_tag info = Some MetadataKey_EditionV1 \<and>
    Edition_decode w (Edition_getPDA w mnt) info = Inl e \<longrightarrow>
      getEditionInfoByMint w mnt = ([AccountGetInfo (Edition_getPDA w mnt)], Inl e) \<and>
      okToFailAsync (getEditionInfoByMint w mnt) True =
        ([AccountGetInfo (Edition_getPDA w mnt)], Inr EmptyObject))"
proof -
  have master: "getEditionInfoByMint w mnt =
        ([AccountGetInfo (Edition_getPDA w mnt)],
         Inr \<lparr>ei_editionType = MasterV2, ei_editionPDA = None, ei_editionData = None,
              ei_masterEditionPDA = Some (Edition_getPDA w mnt),
              ei_masterEditionData = Some mData\<rparr>)"
    if "Account_getInfo w (Edition_getPDA w mnt) = Inr info"
      "leading_tag info = Some MetadataKey_MasterEditionV2"
      "MasterEdition_decode w (Edition_getPDA w mnt) info = Inr mData"
    using that getEditionInfoByMint_master [of w mnt info] MetadataKey_distinct
    by simp
  have print: "fst (getEditionInfoByMint w mnt) =
        [AccountGetInfo (Edition_getPDA w mnt), AccountGetInfo (ed_parent ed)] \<and>
      (snd (getParentEdition w ed) = Inr (mPDA, mData') \<longrightarrow>
         snd (getEditionInfoByMint w mnt) =
           Inr \<lparr>ei_editionType = PrintV1, ei_editionPDA = Some (Edition_getPDA w mnt),
                ei_editionData = Some ed, ei_masterEditionPDA = Some mPDA,
                ei_masterEditionData = Some mData'\<rparr>)"
    if "Account_getInfo w (Edition_getPDA w mnt) = Inr info"
      "leading_tag info = Some MetadataKey_EditionV1"
      "Edition_decode w (Edition_getPDA w mnt) info = Inr ed"
    using getEditionInfoByMint_print [OF that] by simp
  have missing: "getEditionInfoByMint w mnt =
        ([AccountGetInfo (Edition_getPDA w mnt)],
         Inr \<lparr>ei_editionType = Unknown, ei_editionPDA = None, ei_editionData = None,
              ei_masterEditionPDA = None, ei_masterEditionData = None\<rparr>)"
    if "Account_getInfo w (Edition_getPDA w mnt) = Inr info" "leading_tag info = None"
    using that getEditionInfoByMint_other [of w mnt info] by simp
  have adapter: "okToFailAsync (getEditionInfoByMint w mnt) True =
        ([AccountGetInfo (Edition_getPDA w mnt)], Inr EmptyObject)"
    if "getEditionInfoByMint w mnt = ([AccountGetInfo (Edition_getPDA w mnt)], Inl e)"
    using that by (simp add: okToFailAsync_def)
  have unreadable: "getEditionInfoByMint w mnt = ([AccountGetInfo (Edition_getPDA w mnt)], Inl e)"
    if "Account_getInfo w (Edition_getPDA w mnt) = Inl e"
    using getEditionInfoByMint_fetch_fails [OF that] .
  have master_undecodable:
    "getEditionInfoByMint w mnt = ([AccountGetInfo (Edition_getPDA w mnt)], Inl e)"
    if "Account_getInfo w (Edition_getPDA w mnt) = Inr info"
      "leading_tag info = Some MetadataKey_MasterEditionV2"
      "MasterEdition_decode w (Edition_getPDA w mnt) info = Inl e"
    using that getEditionInfoByMint_master [of w mnt info] by simp
  have print_undecodable:
    "getEditionInfoByMint w mnt = ([AccountGetInfo (Edition_getPDA w mnt)], Inl e)"
    if "Account_getInfo w (Edition_getPDA w mnt) = Inr info"
      "leading_tag info = Some MetadataKey_EditionV1"
      "Edition_decode w (Edition_getPDA w mnt) info = Inl e"
    using getEditionInfoByMint_print_undecodable [OF that] .
  show ?thesis
    using master print missing unreadable master_undecodable print_undecodable adapter
    by blast
qed

theorem getEditionInfoByMint_classification_witness:
  "getEditionInfoByMint sample_world ''A'' =
     ([AccountGetInfo ''edition:A''],
      Inr \<lparr>ei_editionType = MasterV2, ei_editionPDA = None, ei_editionData = None,
           ei_masterEditionPDA = Some ''edition:A'',
           ei_masterEditionData = Some \<lparr>med_supply = 9, med_maxSupply = Some 10\<rparr>\<rparr>) \<and>
   fst (getEditionInfoByMint sample_world ''B'') =
     [AccountGetInfo ''edition:B'', AccountGetInfo ''edition:A''] \<and>
   snd (getEditionInfoByMint sample_world ''B'') =
     Inr \<lparr>ei_editionType = PrintV1, ei_editionPDA = Some ''edition:B'',
          ei_editionData = Some \<lparr>ed_parent = ''edition:A'', ed_edition = 9\<rparr>,
          ei_masterEditionPDA = Some ''edition:A'',
          ei_masterEditionData = Some \<lparr>med_supply = 9, med_maxSupply = Some 10\<rparr>\<rparr> \<and>
   getEditionInfoByMint sample_world ''E'' =
     ([AccountGetInfo ''edition:E''],
      Inr \<lparr>ei_editionType = Unknown, ei_editionPDA = None, ei_editionData = None,
           ei_masterEditionPDA = None, ei_masterEditionData = None\<rparr>) \<and>
   getEditionInfoByMint sample_world ''H'' =
     ([AccountGetInfo ''edition:H''],
      Inr \<lparr>ei_editionType = Unknown, ei_editionPDA = None, ei_editionData = None,
           ei_masterEditionPDA = None, ei_masterEditionData = None\<rparr>) \<and>
   getEditionInfoByMint sample_world ''D'' =
     ([AccountGetInfo ''edition:D''], Inl (Error ''Unable to find account'')) \<and>
   okToFailAsync (getEditionInfoByMint sample_world ''D'') True =
     ([AccountGetInfo ''edition:D''], Inr EmptyObject) \<and>
   getEditionInfoByMint sample_world ''F'' =
     ([AccountGetInfo ''edition:F''], Inl (Error ''invalid account data'')) \<and>
   okToFailAsync (getEditionInfoByMint sample_world ''F'') True =
     ([AccountGetInfo ''edition:F''], Inr EmptyObject) \<and>
   getEditionInfoByMint sample_world ''I'' =
     ([AccountGetInfo ''edition:I''], Inl (Error ''invalid account data'')) \<and>
   okToFailAsync (getEditionInfoByMint sample_world ''I'') True =
     ([AccountGetInfo ''edition:I''], Inr EmptyObject)"
proof -
  let ?ed = "\<lparr>ed_parent = ''edition:A'', ed_edition = 9\<rparr>"
  let ?md = "\<lparr>med_supply = 9, med_maxSupply = Some 10\<rparr>"
  let ?gone = "Error ''Unable to find account''"
  let ?bad = "Error ''invalid account data''"
  have pda: "Edition_getPDA sample_world m = ''edition:'' @ m" for m
    by (simp add: sample_world_def)
  have a: "Account_getInfo sample_world (Edition_getPDA sample_world ''A'') =
        Inr (Some (sample_account [6, 0, 0])) \<and>
      leading_tag (Some (sample_account [6, 0, 0])) = Some MetadataKey_MasterEditionV2 \<and>
      MasterEdition_decode sample_world (Edition_getPDA sample_world ''A'')
        (Some (sample_account [6, 0, 0])) = Inr ?md"
    by (simp add: sample_world_def leading_tag_def sample_account_def
        MetadataKey_MasterEditionV2_def)
  have b: "Account_getInfo sample_world (Edition_getPDA sample_world ''B'') =
        Inr (Some (sample_account [1, 9])) \<and>
      leading_tag (Some (sample_account [1, 9])) = Some MetadataKey_EditionV1 \<and>
      Edition_decode sample_world (Edition_getPDA sample_world ''B'')
        (Some (sample_account [1, 9])) = Inr ?ed"
    by (simp add: sample_world_def leading_tag_def sample_account_def MetadataKey_EditionV1_def)
  have parent: "snd (getParentEdition sample_world ?ed) = Inr (''edition:A'', ?md)"
    by (simp add: getParentEdition_eq sample_world_def)
  have e: "Account_getInfo sample_world (Edition_getPDA sample_world ''E'') = Inr None \<and>
      leading_tag None = None"
    by (simp add: sample_world_def leading_tag_def)
  have h: "Account_getInfo sample_world (Edition_getPDA sample_world ''H'') =
        Inr (Some (sample_account [])) \<and>
      leading_tag (Some (sample_account [])) = None"
    by (simp add: sample_world_def leading_tag_def sample_account_def)
  have d: "Account_getInfo sample_world (Edition_getPDA sample_world ''D'') = Inl ?gone"
    by (simp add: sample_world_def)
  have f: "Account_getInfo sample_world (Edition_getPDA sample_world ''F'') =
        Inr (Some (sample_account [6])) \<and>
      leading_tag (Some (sample_account [6])) = Some MetadataKey_MasterEditionV2 \<and>
      MasterEdition_decode sample_world (Edition_getPDA sample_world ''F'')
        (Some (sample_account [6])) = Inl ?bad"
    by (simp add: sample_world_def leading_tag_def sample_account_def
        MetadataKey_MasterEditionV2_def)
  have i: "Account_getInfo sample_world (Edition_getPDA sample_world ''I'') =
        Inr (Some (sample_account [1])) \<and>
      leading_tag (Some (sample_account [1])) = Some MetadataKey_EditionV1 \<and>
      Edition_decode sample_world (Edition_getPDA sample_world ''I'')
        (Some (sample_account [1])) = Inl ?bad"
    by (simp add: sample_world_def leading_tag_def sample_account_def MetadataKey_EditionV1_def)
  from a have A: "getEditionInfoByMint sample_world ''A'' =
     ([AccountGetInfo ''edition:A''],
      Inr \<lparr>ei_editionType = MasterV2, ei_editionPDA = None, ei_editionData = None,
           ei_masterEditionPDA = Some ''edition:A'', ei_masterEditionData = Some ?md\<rparr>)"
    using getEditionInfoByMint_classification [where w = sample_world and mnt = "''A''"
        and info = "Some (sample_account [6, 0, 0])" and mData = ?md and ed = ?ed
        and mPDA = "''edition:A''" and mData' = ?md and e = ?gone]
    by (auto simp add: pda)
  from b parent have B: "fst (getEditionInfoByMint sample_world ''B'') =
       [AccountGetInfo ''edition:B'', AccountGetInfo ''edition:A''] \<and>
     snd (getEditionInfoByMint sample_world ''B'') =
       Inr \<lparr>ei_editionType = PrintV1, ei_editionPDA = Some ''edition:B'',
            ei_editionData = Some ?ed, ei_masterEditionPDA = Some ''edition:A'',
            ei_masterEditionData = Some ?md\<rparr>"
    using getEditionInfoByMint_classification [where w = sample_world and mnt = "''B''"
        and info = "Some (sample_account [1, 9])" and mData = ?md and ed = ?ed
        and mPDA = "''edition:A''" and mData' = ?md and e = ?gone]
    by (auto simp add: pda)
  from e have E: "getEditionInfoByMint sample_world ''E'' =
     ([AccountGetInfo ''edition:E''],
      Inr \<lparr>ei_editionType = Unknown, ei_editionPDA = None, ei_editionData = None,
           ei_masterEditionPDA = None, ei_masterEditionData = None\<rparr>)"
    using getEditionInfoByMint_classification [where w = sample_world and mnt = "''E''"
        and info = None and mData = ?md and ed = ?ed
        and mPDA = "''edition:A''" and mData' = ?md and e = ?gone]
    by (auto simp add: pda)
  from h have H: "getEditionInfoByMint sample_world ''H'' =
     ([AccountGetInfo ''edition:H''],
      Inr \<lparr>ei_editionType = Unknown, ei_editionPDA = None, ei_editionData = None,
           ei_masterEditionPDA = None, ei_masterEditionData = None\<rparr>)"
    using getEditionInfoByMint_classification [where w = sample_world and mnt = "''H''"
        and info = "Some (sample_account [])" and mData = ?md and ed = ?ed
        and mPDA = "''edition:A''" and mData' = ?md and e = ?gone]
    by (auto simp add: pda)
  from d have D: "getEditionInfoByMint sample_world ''D'' =
       ([AccountGetInfo ''edition:D''], Inl ?gone) \<and>
     okToFailAsync (getEditionInfoByMint sample_world ''D'') True =
       ([AccountGetInfo ''edition:D''], Inr EmptyObject)"
    using getEditionInfoByMint_classification [where w = sample_world and mnt = "''D''"
        and info = None and mData = ?md and ed = ?ed
        and mPDA = "''edition:A''" and mData' = ?md and e = ?gone]
    by (auto simp add: pda)
  from f have F: "getEditionInfoByMint sample_world ''F'' =
       ([AccountGetInfo ''edition:F''], Inl ?bad) \<and>
     okToFailAsync (getEditionInfoByMint sample_world ''F'') True =
       ([AccountGetInfo ''edition:F''], Inr EmptyObject)"
    using getEditionInfoByMint_classification [where w = sample_world and mnt = "''F''"
        and info = "Some (sample_account [6])" and mData = ?md and ed = ?ed
        and mPDA = "''edition:A''" and mData' = ?md and e = ?bad]
    by (auto simp add: pda)
  from i have I: "getEditionInfoByMint sample_world ''I'' =
       ([AccountGetInfo ''edition:I''], Inl ?bad) \<and>
     okToFailAsync (getEditionInfoByMint sample_world ''I'') True =
       ([AccountGetInfo ''edition:I''], Inr EmptyObject)"
    using getEditionInfoByMint_classification [where w = sample_world and mnt = "''I''"
        and info = "Some (sample_account [1])" and mData = ?md and ed = ?ed
        and mPDA = "''edition:A''" and mData' = ?md and e = ?bad]
    by (auto simp add: pda)
  from A B E H D F I show ?thesis by blast
qed


text \<open>
  The claim as written fails where resolution does not return: mint D's edition account
  cannot be fetched, mint F's carries the tag MasterEditionV2 on data that does not decode.
  Both resolutions reject.
\<close>

theorem edition_resolution_raises_counterexample:
  "Account_getInfo sample_world (Edition_getPDA sample_world ''D'') =
     Inl (Error ''Unable to find account'') \<and>
   getEditionInfoByMint sample_world ''D'' =
     ([AccountGetInfo ''edition:D''], Inl (Error ''Unable to find account'')) \<and>
   Account_getInfo sample_world (Edition_getPDA sample_world ''F'') =
     Inr (Some (sample_account [6])) \<and>
   leading_tag (Some (sample_account [6])) = Some MetadataKey_MasterEditionV2 \<and>
   getEditionInfoByMint sample_world ''F'' =
     ([AccountGetInfo ''edition:F''], Inl (Error ''invalid account data''))"
  by code_simp

section \<open>Order of the enrichment lookups\<close>














end
